theory Spec2Isabelle
  imports Main "HOL-Library.Word"
begin

unbundle bit_operations_syntax

section \<open>Basic types of package th\<close>

type_synonym byte = "8 word"
type_synonym uint32 = "32 word"
type_synonym uint64 = "64 word"

text \<open>\<open>th.Tweak\<close>, \<open>th.Params\<close> and \<open>th.Domain\<close> are byte slices.\<close>

type_synonym Tweak = "byte list"
type_synonym Params = "byte list"
type_synonym Domain = "byte list"

definition TweakSeparatorChainHash :: byte where
  "TweakSeparatorChainHash = 0x00"

definition TweakSeparatorTreeHash :: byte where
  "TweakSeparatorTreeHash = 0x01"

definition TweakSeparatorMessageHash :: byte where
  "TweakSeparatorMessageHash = 0x02"

section \<open>Package tweak: the three tweak encoders\<close>

text \<open>
  \<open>binary.BigEndian.AppendUint32(b, v)\<close> appends \<open>byte(v>>24), byte(v>>16), byte(v>>8),
  byte(v)\<close>; the little-endian variant appends the same bytes in the opposite order.
\<close>

definition BigEndian_AppendUint32 :: "byte list \<Rightarrow> uint32 \<Rightarrow> byte list" where
  "BigEndian_AppendUint32 b v =
     b @ [ucast (drop_bit 24 v), ucast (drop_bit 16 v), ucast (drop_bit 8 v), ucast v]"

definition LittleEndian_AppendUint32 :: "byte list \<Rightarrow> uint32 \<Rightarrow> byte list" where
  "LittleEndian_AppendUint32 b v =
     b @ [ucast v, ucast (drop_bit 8 v), ucast (drop_bit 16 v), ucast (drop_bit 24 v)]"

definition ChainTweak :: "uint32 \<Rightarrow> byte \<Rightarrow> byte \<Rightarrow> Tweak" where
  "ChainTweak epoch chainIndex posInChain =
     (let tweak = [];
          tweak = tweak @ [TweakSeparatorChainHash];
          tweak = BigEndian_AppendUint32 tweak epoch;
          tweak = tweak @ [chainIndex];
          tweak = tweak @ [posInChain]
      in tweak)"

definition TreeTweak :: "byte \<Rightarrow> uint32 \<Rightarrow> Tweak" where
  "TreeTweak level posInLevel =
     (let tweak = [];
          tweak = tweak @ [TweakSeparatorTreeHash];
          tweak = tweak @ [level];
          tweak = BigEndian_AppendUint32 tweak posInLevel
      in tweak)"

definition MessageTweak :: "uint32 \<Rightarrow> Tweak" where
  "MessageTweak epoch =
     (let tweak = [];
          tweak = tweak @ [TweakSeparatorMessageHash];
          tweak = LittleEndian_AppendUint32 tweak epoch
      in tweak)"

text \<open>
  The specification's notation, written independently of the code: \<open>BE32 x\<close> is the
  four base-256 digits of \<open>x\<close>, most significant first; \<open>LE32 x\<close> the same digits,
  least significant first.
\<close>

definition spec_digit256 :: "uint32 \<Rightarrow> nat \<Rightarrow> byte" where
  "spec_digit256 x k = of_nat ((unat x div 256 ^ k) mod 256)"

definition spec_BE32 :: "uint32 \<Rightarrow> byte list" where
  "spec_BE32 x = map (spec_digit256 x) [3, 2, 1, 0]"

definition spec_LE32 :: "uint32 \<Rightarrow> byte list" where
  "spec_LE32 x = map (spec_digit256 x) [0, 1, 2, 3]"

section \<open>Package th: the tweakable hash interface and the chain walker\<close>

text \<open>
  \<open>th.TweakableHash\<close> is an interface; an implementation is a record of its methods.
  The type \<open>'r\<close> is the state of an \<open>io.Reader\<close>. The two sampling methods read from it
  and panic when the read fails (\<open>None\<close>).
\<close>

record 'r TweakableHash =
  th_RandParameter :: "'r \<Rightarrow> (Params \<times> 'r) option"
  th_RandDomain :: "'r \<Rightarrow> (Domain \<times> 'r) option"
  th_TreeTweak :: "byte \<Rightarrow> uint32 \<Rightarrow> Tweak"
  th_ChainTweak :: "uint32 \<Rightarrow> byte \<Rightarrow> byte \<Rightarrow> Tweak"
  th_Apply :: "Params \<Rightarrow> Tweak \<Rightarrow> Domain list \<Rightarrow> Domain"

text \<open>
  The loop of \<open>th.Chain\<close>: \<open>for j := 0; j < steps; j++\<close>, with \<open>steps\<close> and \<open>j\<close> of
  type \<open>int\<close> and the position \<open>startPosInChain+uint8(j)+1\<close> computed in \<open>uint8\<close>.
\<close>

function Chain_loop ::
  "'r TweakableHash \<Rightarrow> Params \<Rightarrow> uint32 \<Rightarrow> byte \<Rightarrow> byte \<Rightarrow> int \<Rightarrow> int \<Rightarrow> Domain \<Rightarrow> Domain"
where
  "Chain_loop th parameter epoch chainIndex startPosInChain steps j current =
     (if j < steps
      then Chain_loop th parameter epoch chainIndex startPosInChain steps (j + 1)
             (th_Apply th parameter
                (th_ChainTweak th epoch chainIndex (startPosInChain + word_of_int j + 1))
                [current])
      else current)"
  by pat_completeness auto
termination
  by (relation "measure (\<lambda>(th, parameter, epoch, chainIndex, startPosInChain, steps, j, current).
        nat (steps - j))") auto

declare Chain_loop.simps [simp del]

definition Chain ::
  "'r TweakableHash \<Rightarrow> Params \<Rightarrow> uint32 \<Rightarrow> byte \<Rightarrow> byte \<Rightarrow> int \<Rightarrow> Domain \<Rightarrow> Domain"
where
  "Chain th parameter epoch chainIndex startPosInChain steps start =
     Chain_loop th parameter epoch chainIndex startPosInChain steps 0 start"

text \<open>
  A small deterministic implementation of the interface, used to run the generic
  theorems on concrete inputs: it concatenates its inputs and samples by taking the next
  two bytes of a finite byte source.
\<close>

definition take_bytes :: "nat \<Rightarrow> byte list \<Rightarrow> (byte list \<times> byte list) option" where
  "take_bytes n r = (if length r < n then None else Some (take n r, drop n r))"

definition concat_th :: "(byte list) TweakableHash" where
  "concat_th = \<lparr> th_RandParameter = take_bytes 2, th_RandDomain = take_bytes 2,
       th_TreeTweak = TreeTweak, th_ChainTweak = ChainTweak,
       th_Apply = (\<lambda>P T M. P @ T @ concat M) \<rparr>"

section \<open>Integer helpers\<close>

text \<open>
  Go's \<open>int\<close> is 64 bits wide. \<open>1 << n\<close> on an \<open>int\<close> panics for a negative count
  and otherwise keeps the low 64 bits, read as a signed value; on a \<open>uint64\<close> it keeps
  the low 64 bits unsigned. \<open>None\<close> is the panic. All other \<open>int\<close> arithmetic of the
  program (sums of indices and slice lengths, loop counters) is written on unbounded
  integers.
\<close>

definition shl1_int :: "int \<Rightarrow> int option" where
  "shl1_int n = (if n < 0 then None else Some (sint (push_bit (nat n) (1 :: uint64))))"

definition shl1_uint64 :: "int \<Rightarrow> uint64 option" where
  "shl1_uint64 n = (if n < 0 then None else Some (push_bit (nat n) (1 :: uint64)))"

section \<open>Readers\<close>

text \<open>
  An \<open>io.Reader\<close> is a state of type \<open>'r\<close> together with its \<open>Read\<close> method:
  \<open>rd r n\<close> is a call of \<open>Read\<close> on a buffer of \<open>n\<close> bytes and yields the bytes
  written to the front of the buffer (at most \<open>n\<close>), whether an error was returned, and
  the reader afterwards. \<open>bytes_Reader_Read\<close> is the reader over a finite byte string
  (\<open>bytes.Reader\<close>): it hands out what is left and reports \<open>io.EOF\<close> once empty.
\<close>

type_synonym 'r Reader_Read = "'r \<Rightarrow> nat \<Rightarrow> byte list \<times> bool \<times> 'r"

definition bytes_Reader_Read :: "(byte list) Reader_Read" where
  "bytes_Reader_Read r n = (if r = [] then ([], True, r) else (take n r, False, drop n r))"

section \<open>Package merkle: the sparse hash tree\<close>

record HashTreeLayer =
  startIndex :: int
  nodes :: "Domain list"

record 'r HashTree =
  depth :: int
  layers :: "HashTreeLayer list"
  tree_th :: "'r TweakableHash"
  params :: Params

record HashTreeOpening =
  CoPath :: "Domain list"










text \<open>
  \<open>VerifyPath\<close>: the loop runs over the co-path, whatever its length; the final
  comparison of length and of every byte is equality of the two byte strings.
\<close>

fun VerifyPath_loop ::
  "'r TweakableHash \<Rightarrow> Params \<Rightarrow> int \<Rightarrow> uint32 \<Rightarrow> Domain \<Rightarrow> Domain list \<Rightarrow> Domain"
where
  "VerifyPath_loop thash parameter level index current [] = current"
| "VerifyPath_loop thash parameter level index current (sibling # rest) =
     (let children = (if index AND 1 = 0 then [current, sibling] else [sibling, current]);
          parentIndex = drop_bit 1 index;
          tweak = th_TreeTweak thash (word_of_int (level + 1)) parentIndex
      in VerifyPath_loop thash parameter (level + 1) parentIndex
           (th_Apply thash parameter tweak children) rest)"

definition VerifyPath ::
  "'r TweakableHash \<Rightarrow> Params \<Rightarrow> Domain \<Rightarrow> uint32 \<Rightarrow> Domain list \<Rightarrow> HashTreeOpening \<Rightarrow> bool"
where
  "VerifyPath thash parameter root epoch leaf path =
     (let leafTweak = th_TreeTweak thash 0 epoch;
          current = th_Apply thash parameter leafTweak leaf;
          current = VerifyPath_loop thash parameter 0 epoch current (CoPath path)
      in current = root)"

section \<open>Package encoding: message hashes and incomparable encodings\<close>

datatype error = ErrEncodingFailed | ErrChunkSize | ErrNotActive | SigningError int

type_synonym Codeword = "byte list"

text \<open>The interface \<open>encoding.MessageHash\<close>.\<close>

record MessageHash =
  mh_Hash :: "Params \<Rightarrow> byte list \<Rightarrow> byte list \<Rightarrow> uint32 \<Rightarrow> byte list"
  mh_RandLen :: int
  mh_Dimension :: int
  mh_Base :: int
  mh_ChunkSize :: int

text \<open>
  The interface \<open>encoding.IncomparableEncoding\<close>. A call either panics (\<open>None\<close>) or
  returns; \<open>Encode\<close> returns an error (\<open>Inl\<close>) or a codeword (\<open>Inr\<close>).
\<close>

record 'r IncomparableEncoding =
  enc_Encode :: "Params \<Rightarrow> byte list \<Rightarrow> byte list \<Rightarrow> uint32 \<Rightarrow> (error + Codeword) option"
  enc_RandRandomness :: "'r \<Rightarrow> (byte list \<times> 'r) option"
  enc_Dimension :: int
  enc_Base :: int
  enc_ChunkSize :: int
  enc_MaxTries :: int
  enc_NeedsRetry :: bool

subsection \<open>Package bitutil\<close>

definition BytesToChunks :: "byte list \<Rightarrow> int \<Rightarrow> error + byte list" where
  "BytesToChunks bytes chunkSize =
     (if chunkSize \<noteq> 1 \<and> chunkSize \<noteq> 2 \<and> chunkSize \<noteq> 4 \<and> chunkSize \<noteq> 8
      then Inl ErrChunkSize
      else if chunkSize = 8 then Inr bytes
      else if chunkSize = 4
        then Inr (concat (map (\<lambda>b. [b AND 0x0F, drop_bit 4 b]) bytes))
      else if chunkSize = 2
        then Inr (concat (map (\<lambda>b. [b AND 0x03, drop_bit 2 b AND 0x03,
                                      drop_bit 4 b AND 0x03, drop_bit 6 b AND 0x03]) bytes))
      else Inr (concat (map (\<lambda>b. map (\<lambda>i. drop_bit i b AND 0x01) [0..<8]) bytes)))"

definition LittleEndian_PutUint64 :: "uint64 \<Rightarrow> byte list" where
  "LittleEndian_PutUint64 v = map (\<lambda>i. ucast (drop_bit (8 * i) v)) [0..<8]"

subsection \<open>Winternitz encoding\<close>

record WinternitzEncoding =
  w_messageHash :: MessageHash
  w_chunkSize :: int
  w_numChunksChecksum :: int
  w_numChunksMessage :: int

definition WinternitzEncoding_Base :: "WinternitzEncoding \<Rightarrow> int option" where
  "WinternitzEncoding_Base w = shl1_int (w_chunkSize w)"

definition WinternitzEncoding_Dimension :: "WinternitzEncoding \<Rightarrow> int" where
  "WinternitzEncoding_Dimension w = w_numChunksMessage w + w_numChunksChecksum w"

text \<open>
  \<open>Encode\<close>: the checksum is accumulated in \<open>uint64\<close>; the slice expression
  \<open>checksumChunks[:numChunksChecksum]\<close> panics when the bound is negative or exceeds the
  number of checksum chunks.
\<close>

definition WinternitzEncoding_Encode ::
  "WinternitzEncoding \<Rightarrow> Params \<Rightarrow> byte list \<Rightarrow> byte list \<Rightarrow> uint32 \<Rightarrow> (error + Codeword) option"
where
  "WinternitzEncoding_Encode w P msg rho epoch =
     (let messageChunks = mh_Hash (w_messageHash w) P msg rho epoch
      in case WinternitzEncoding_Base w of
           None \<Rightarrow> None
         | Some b \<Rightarrow>
             (let base = (word_of_int b :: uint64);
                  checksum = fold (\<lambda>chunk acc. acc + (base - 1 - ucast chunk)) messageChunks
                               (0 :: uint64);
                  checksumBytes = LittleEndian_PutUint64 checksum
              in case BytesToChunks checksumBytes (w_chunkSize w) of
                   Inl err \<Rightarrow> Some (Inl err)
                 | Inr checksumChunks \<Rightarrow>
                     if w_numChunksChecksum w < 0
                        \<or> w_numChunksChecksum w > int (length checksumChunks)
                     then None
                     else Some (Inr (messageChunks
                                     @ take (nat (w_numChunksChecksum w)) checksumChunks))))"

text \<open>
  \<open>RandRandomness\<close>: a zeroed buffer of \<open>RandLen\<close> bytes is handed to \<open>rng.Read\<close>; the
  count and the error that \<open>Read\<close> returns are discarded, and the buffer is returned.
\<close>

definition WinternitzEncoding_RandRandomness ::
  "'r Reader_Read \<Rightarrow> WinternitzEncoding \<Rightarrow> 'r \<Rightarrow> (byte list \<times> 'r) option"
where
  "WinternitzEncoding_RandRandomness rd w rng =
     (let randLen = mh_RandLen (w_messageHash w)
      in if randLen < 0 then None
         else (let rand = replicate (nat randLen) (0 :: byte);
                   (written, err, rng') = rd rng (nat randLen)
               in Some (written @ drop (length written) rand, rng')))"

definition WinternitzEncoding_iface ::
  "'r Reader_Read \<Rightarrow> WinternitzEncoding \<Rightarrow> 'r IncomparableEncoding option"
where
  "WinternitzEncoding_iface rd w =
     (case WinternitzEncoding_Base w of
        None \<Rightarrow> None
      | Some b \<Rightarrow>
          Some \<lparr> enc_Encode = WinternitzEncoding_Encode w,
                 enc_RandRandomness = WinternitzEncoding_RandRandomness rd w,
                 enc_Dimension = WinternitzEncoding_Dimension w,
                 enc_Base = b,
                 enc_ChunkSize = w_chunkSize w,
                 enc_MaxTries = 1,
                 enc_NeedsRetry = False \<rparr>)"

subsection \<open>Target-Sum encoding\<close>

record TargetSumEncoding =
  t_messageHash :: MessageHash
  t_targetSum :: int

definition TargetSumEncoding_Encode ::
  "TargetSumEncoding \<Rightarrow> Params \<Rightarrow> byte list \<Rightarrow> byte list \<Rightarrow> uint32 \<Rightarrow> (error + Codeword) option"
where
  "TargetSumEncoding_Encode t P msg rho epoch =
     (let chunks = mh_Hash (t_messageHash t) P msg rho epoch;
          sum = fold (\<lambda>chunk acc. acc + uint chunk) chunks (0 :: int)
      in if sum \<noteq> t_targetSum t then Some (Inl ErrEncodingFailed)
         else Some (Inr chunks))"

definition TargetSumEncoding_RandRandomness ::
  "'r Reader_Read \<Rightarrow> TargetSumEncoding \<Rightarrow> 'r \<Rightarrow> (byte list \<times> 'r) option"
where
  "TargetSumEncoding_RandRandomness rd t rng =
     (let randLen = mh_RandLen (t_messageHash t)
      in if randLen < 0 then None
         else (let rand = replicate (nat randLen) (0 :: byte);
                   (written, err, rng') = rd rng (nat randLen)
               in Some (written @ drop (length written) rand, rng')))"

definition TargetSumEncoding_iface ::
  "'r Reader_Read \<Rightarrow> TargetSumEncoding \<Rightarrow> 'r IncomparableEncoding"
where
  "TargetSumEncoding_iface rd t =
     \<lparr> enc_Encode = TargetSumEncoding_Encode t,
       enc_RandRandomness = TargetSumEncoding_RandRandomness rd t,
       enc_Dimension = mh_Dimension (t_messageHash t),
       enc_Base = mh_Base (t_messageHash t),
       enc_ChunkSize = mh_ChunkSize (t_messageHash t),
       enc_MaxTries = 100000,
       enc_NeedsRetry = True \<rparr>"

section \<open>Package prf\<close>

text \<open>The interface \<open>prf.PRF\<close>; \<open>KeyGen\<close> panics (\<open>None\<close>) when the reader fails.\<close>

record 'r PRF =
  prf_KeyGen :: "'r \<Rightarrow> (byte list \<times> 'r) option"
  prf_Apply :: "byte list \<Rightarrow> uint32 \<Rightarrow> uint64 \<Rightarrow> Domain"

definition prfDomainSep :: "byte list" where
  "prfDomainSep = [0x00, 0x01, 0x12, 0xff, 0x00, 0x01, 0xfa, 0xff,
                   0x00, 0xaf, 0x12, 0xff, 0x01, 0xfa, 0xff, 0x00]"

definition BigEndian_PutUint32 :: "uint32 \<Rightarrow> byte list" where
  "BigEndian_PutUint32 v = [ucast (drop_bit 24 v), ucast (drop_bit 16 v), ucast (drop_bit 8 v), ucast v]"

definition BigEndian_PutUint64 :: "uint64 \<Rightarrow> byte list" where
  "BigEndian_PutUint64 v = map (\<lambda>i. ucast (drop_bit (8 * (7 - i)) v)) [0..<8]"

record SHA3PRF =
  keyLen :: int
  outputLen :: int

text \<open>
  \<open>SHA3PRF.Apply\<close>. The digest function of \<open>golang.org/x/crypto/sha3\<close> is the parameter
  \<open>sha3_256\<close>: \<open>h.Sum(nil)\<close> after the four writes is the digest of their concatenation.
  The slice expression \<open>fullHash[:outputLen]\<close> panics on a negative bound.
\<close>

definition SHA3PRF_Apply ::
  "(byte list \<Rightarrow> byte list) \<Rightarrow> SHA3PRF \<Rightarrow> byte list \<Rightarrow> uint32 \<Rightarrow> uint64 \<Rightarrow> Domain option"
where
  "SHA3PRF_Apply sha3_256 p key epoch chainIndex =
     (let epochBytes = BigEndian_PutUint32 epoch;
          chainBytes = BigEndian_PutUint64 chainIndex;
          fullHash = sha3_256 (prfDomainSep @ key @ epochBytes @ chainBytes)
      in if int (length fullHash) > outputLen p
         then (if outputLen p < 0 then None else Some (take (nat (outputLen p)) fullHash))
         else Some fullHash)"

section \<open>Package xmss: the generalized XMSS engine\<close>

record PublicKey =
  pk_Root :: Domain
  pk_Parameter :: Params


record Signature =
  sig_Path :: HashTreeOpening
  sig_Rho :: "byte list"
  sig_Hashes :: "Domain list"

record 'r GeneralizedXMSS =
  g_prf :: "'r PRF"
  g_encoding :: "'r IncomparableEncoding"
  g_th :: "'r TweakableHash"
  g_logLifetime :: int

definition NewGeneralizedXMSS ::
  "'r PRF \<Rightarrow> 'r IncomparableEncoding \<Rightarrow> 'r TweakableHash \<Rightarrow> int \<Rightarrow> 'r GeneralizedXMSS option"
where
  "NewGeneralizedXMSS prf encoding th logLifetime =
     (if logLifetime > 32 then None
      else if enc_Base encoding > 256 then None
      else if enc_Dimension encoding > 256 then None
      else Some \<lparr> g_prf = prf, g_encoding = encoding, g_th = th, g_logLifetime = logLifetime \<rparr>)"

definition Lifetime :: "'r GeneralizedXMSS \<Rightarrow> uint64 option" where
  "Lifetime g = shl1_uint64 (g_logLifetime g)"







fun collect :: "'a option list \<Rightarrow> 'a list option" where
  "collect [] = Some []"
| "collect (x # xs) =
     (case x of None \<Rightarrow> None
      | Some y \<Rightarrow> (case collect xs of None \<Rightarrow> None | Some ys \<Rightarrow> Some (y # ys)))"


text \<open>
  The chain end that \<open>Verify\<close> recomputes for chain \<open>chainIndex\<close>;
  \<open>sig.Hashes[chainIndex]\<close> panics when the signature carries too few hashes.
\<close>

definition verify_chain_end ::
  "'r GeneralizedXMSS \<Rightarrow> PublicKey \<Rightarrow> uint32 \<Rightarrow> Codeword \<Rightarrow> Signature \<Rightarrow> nat \<Rightarrow> Domain option"
where
  "verify_chain_end g pk epoch codeword sig chainIndex =
     (let xi = codeword ! chainIndex;
          steps = enc_Base (g_encoding g) - 1 - uint xi
      in if chainIndex < length (sig_Hashes sig)
         then Some (Chain (g_th g) (pk_Parameter pk) epoch (word_of_int (int chainIndex)) xi
                      steps (sig_Hashes sig ! chainIndex))
         else None)"

text \<open>\<open>Verify\<close>: \<open>None\<close> is a panic, \<open>Some b\<close> the returned boolean.\<close>

definition Verify ::
  "'r GeneralizedXMSS \<Rightarrow> PublicKey \<Rightarrow> uint32 \<Rightarrow> byte list \<Rightarrow> Signature \<Rightarrow> bool option"
where
  "Verify g pk epoch message sig =
     (case Lifetime g of
        None \<Rightarrow> None
      | Some lifetime \<Rightarrow>
          if ucast epoch \<ge> lifetime then Some False
          else (case enc_Encode (g_encoding g) (pk_Parameter pk) message (sig_Rho sig) epoch of
                  None \<Rightarrow> None
                | Some (Inl err) \<Rightarrow> Some False
                | Some (Inr codeword) \<Rightarrow>
                    (let numChains = enc_Dimension (g_encoding g)
                     in if int (length codeword) \<noteq> numChains then Some False
                        else (case collect (map (verify_chain_end g pk epoch codeword sig)
                                             [0..<nat numChains]) of
                                None \<Rightarrow> None
                              | Some chainEnds \<Rightarrow>
                                  Some (VerifyPath (g_th g) (pk_Parameter pk) (pk_Root pk)
                                          epoch chainEnds (sig_Path sig))))))"

section \<open>A small concrete instance\<close>

text \<open>
  A one-bit message hash (the parity of the message length), the Winternitz encoding
  over it (one message chunk, one checksum chunk, as \<open>n\<^sub>1 = \<lfloor>log\<^sub>2 1\<rfloor> + 1\<close> demands), a
  PRF that concatenates its inputs, and the engine built from them over \<open>concat_th\<close> with
  \<open>logLifetime = 2\<close>. Readers are finite byte strings. The generic theorems are run on
  this instance.
\<close>

definition demo_mh :: MessageHash where
  "demo_mh = \<lparr> mh_Hash = (\<lambda>P msg rho epoch. [of_nat (length msg) AND 1]),
      mh_RandLen = 2, mh_Dimension = 1, mh_Base = 2, mh_ChunkSize = 1 \<rparr>"

definition demo_w :: WinternitzEncoding where
  "demo_w = \<lparr> w_messageHash = demo_mh, w_chunkSize = 1, w_numChunksChecksum = 1,
      w_numChunksMessage = 1 \<rparr>"

definition demo_t :: TargetSumEncoding where
  "demo_t = \<lparr> t_messageHash = demo_mh, t_targetSum = 1 \<rparr>"

definition demo_encoding :: "(byte list) IncomparableEncoding" where
  "demo_encoding =
     \<lparr> enc_Encode = WinternitzEncoding_Encode demo_w,
       enc_RandRandomness = WinternitzEncoding_RandRandomness bytes_Reader_Read demo_w,
       enc_Dimension = WinternitzEncoding_Dimension demo_w,
       enc_Base = 2,
       enc_ChunkSize = 1,
       enc_MaxTries = 1,
       enc_NeedsRetry = False \<rparr>"

definition demo_prf :: "(byte list) PRF" where
  "demo_prf = \<lparr> prf_KeyGen = take_bytes 2,
      prf_Apply = (\<lambda>key epoch chainIndex. key @ [ucast epoch, ucast chainIndex]) \<rparr>"

definition demo_xmss :: "(byte list) GeneralizedXMSS" where
  "demo_xmss = \<lparr> g_prf = demo_prf, g_encoding = demo_encoding, g_th = concat_th,
      g_logLifetime = 2 \<rparr>"

text \<open>A stand-in for a 32-byte digest function, and the node counts of a tree's layers.\<close>

definition pad_digest :: "byte list \<Rightarrow> byte list" where
  "pad_digest x = take 32 (x @ replicate 32 0)"


definition layer_starts :: "'r HashTree \<Rightarrow> int list" where
  "layer_starts t = map startIndex (layers t)"

section \<open>Notions used in the proofs about the tree\<close>







section \<open>Package targetsum: the recommended target\<close>















section \<open>Tweak encodings\<close>

lemma ucast_drop_bit_digit:
  "(ucast (drop_bit (8 * k) (x :: uint32)) :: byte) = spec_digit256 x k"
proof -
  have "unat (drop_bit (8 * k) x) = unat x div 256 ^ k"
    unfolding unat_drop_bit_eq by (simp add: drop_bit_eq_div power_mult)
  then have "unat (ucast (drop_bit (8 * k) x) :: byte) = (unat x div 256 ^ k) mod 256"
    unfolding unsigned_ucast_eq by (simp add: take_bit_eq_mod)
  moreover have "unat (spec_digit256 x k) = (unat x div 256 ^ k) mod 256"
    by (simp add: spec_digit256_def unat_of_nat)
  ultimately show ?thesis
    by (simp add: word_unat_eq_iff)
qed

lemma BigEndian_AppendUint32_spec: "BigEndian_AppendUint32 b v = b @ spec_BE32 v"
  using ucast_drop_bit_digit [of 3 v] ucast_drop_bit_digit [of 2 v]
    ucast_drop_bit_digit [of 1 v] ucast_drop_bit_digit [of 0 v]
  by (simp add: BigEndian_AppendUint32_def spec_BE32_def)

lemma LittleEndian_AppendUint32_spec: "LittleEndian_AppendUint32 b v = b @ spec_LE32 v"
  using ucast_drop_bit_digit [of 3 v] ucast_drop_bit_digit [of 2 v]
    ucast_drop_bit_digit [of 1 v] ucast_drop_bit_digit [of 0 v]
  by (simp add: LittleEndian_AppendUint32_def spec_LE32_def)

text \<open>
  Claim C3. For all arguments, the chain tweak is \<open>0x00 || BE32(epoch) || u8(i) || u8(pos)\<close>,
  the tree tweak is \<open>0x01 || u8(level) || BE32(pos)\<close> and the message tweak is
  \<open>0x02 || LE32(epoch)\<close>; the three test vectors of scenario S5 come out byte for byte.
\<close>

theorem tweak_formats:
  "ChainTweak epoch i pos = [0x00] @ spec_BE32 epoch @ [i] @ [pos]
   \<and> TreeTweak level p = [0x01] @ [level] @ spec_BE32 p
   \<and> MessageTweak epoch = [0x02] @ spec_LE32 epoch
   \<and> ChainTweak 0x12345678 0xAB 0xCD = [0x00, 0x12, 0x34, 0x56, 0x78, 0xAB, 0xCD]
   \<and> TreeTweak 0xAB 0x12345678 = [0x01, 0xAB, 0x12, 0x34, 0x56, 0x78]
   \<and> MessageTweak 0x12345678 = [0x02, 0x78, 0x56, 0x34, 0x12]"
  by (simp add: ChainTweak_def TreeTweak_def MessageTweak_def
      TweakSeparatorChainHash_def TweakSeparatorTreeHash_def TweakSeparatorMessageHash_def
      BigEndian_AppendUint32_spec LittleEndian_AppendUint32_spec
      spec_BE32_def spec_LE32_def spec_digit256_def)

section \<open>Chain walker\<close>

lemma Chain_loop_shift:
  "0 \<le> a \<Longrightarrow> 0 \<le> j \<Longrightarrow>
   Chain_loop th P ep ci 0 (a + b) (a + j) cur = Chain_loop th P ep ci (word_of_int a) b j cur"
proof (induction th P ep ci "word_of_int a :: byte" b j cur rule: Chain_loop.induct)
  case (1 th P ep ci steps j cur)
  show ?case
  proof (cases "j < steps")
    case True
    then show ?thesis
      using 1 by (subst Chain_loop.simps, subst (2) Chain_loop.simps) (simp add: add.assoc)
  next
    case False
    then show ?thesis
      by (subst Chain_loop.simps, subst (2) Chain_loop.simps) simp
  qed
qed

lemma Chain_loop_split:
  "j \<le> a \<Longrightarrow> a \<le> s \<Longrightarrow>
   Chain_loop th P ep ci sp s j cur = Chain_loop th P ep ci sp s a (Chain_loop th P ep ci sp a j cur)"
proof (induction th P ep ci sp a j cur rule: Chain_loop.induct)
  case (1 th P ep ci sp a j cur)
  show ?case
  proof (cases "j < a")
    case True
    then show ?thesis
      using 1 by (subst Chain_loop.simps, subst (3) Chain_loop.simps) simp
  next
    case False
    then show ?thesis
      using 1 by (subst (3) Chain_loop.simps) simp
  qed
qed

text \<open>
  Claim C2. Walking \<open>a + b\<close> steps from position 0 equals walking \<open>a\<close> steps and then
  \<open>b\<close> steps from start position \<open>a\<close> (passed as \<open>uint8\<close>, as the callers do), for
  every tweakable hash, parameter, epoch, chain index and start value; and a walk of zero
  steps returns its input.
\<close>

theorem chain_associative:
  assumes "0 \<le> a" and "0 \<le> b"
  shows "Chain th P epoch i 0 (a + b) start
           = Chain th P epoch i (word_of_int a) b (Chain th P epoch i 0 a start)
         \<and> Chain th P epoch i startPos 0 start = start"
proof -
  have "Chain_loop th P epoch i 0 (a + b) 0 start
          = Chain_loop th P epoch i 0 (a + b) a (Chain_loop th P epoch i 0 a 0 start)"
    using assms by (intro Chain_loop_split) simp_all
  also have "\<dots> = Chain_loop th P epoch i (word_of_int a) b 0 (Chain_loop th P epoch i 0 a 0 start)"
    using Chain_loop_shift [of a 0 th P epoch i b] assms by simp
  finally have "Chain th P epoch i 0 (a + b) start
           = Chain th P epoch i (word_of_int a) b (Chain th P epoch i 0 a start)"
    by (simp add: Chain_def)
  moreover have "Chain th P epoch i startPos 0 start = start"
    by (simp add: Chain_def Chain_loop.simps)
  ultimately show ?thesis by simp
qed

theorem chain_associative_witness:
  "(0::int) \<le> 2 \<and> (0::int) \<le> 1
   \<and> Chain concat_th [1] 7 2 0 (2 + 1) [9]
       = Chain concat_th [1] 7 2 (word_of_int 2) 1 (Chain concat_th [1] 7 2 0 2 [9])
   \<and> Chain concat_th [1] 7 2 5 0 [9] = [9]"
  using chain_associative [of 2 1 concat_th "[1]" 7 2 "[9]" 5] by simp

section \<open>SHA3 PRF output length\<close>

text \<open>
  Claim C10. For every key, epoch and chain index, \<open>SHA3PRF.Apply\<close> returns exactly
  \<open>min(outputLen, 32)\<close> bytes, for a configured (non-negative) output length and a digest
  function with 32-byte digests: an output length above 32 is capped at 32, not extended.
\<close>

theorem sha3prf_output_length:
  assumes "\<forall>x. length (sha3_256 x) = 32" and "0 \<le> outputLen p"
  shows "\<exists>out. SHA3PRF_Apply sha3_256 p key epoch chainIndex = Some out
               \<and> int (length out) = min (outputLen p) 32"
  using assms by (auto simp: SHA3PRF_Apply_def Let_def)

theorem sha3prf_output_length_witness:
  "(\<forall>x. length (pad_digest x) = 32) \<and> (0::int) \<le> 40
   \<and> (\<exists>out. SHA3PRF_Apply pad_digest \<lparr> keyLen = 24, outputLen = 40 \<rparr> [1] 0 0 = Some out
               \<and> int (length out) = min 40 32)"
proof -
  have h: "\<forall>x. length (pad_digest x) = 32"
    by (auto simp: pad_digest_def min_def)
  show ?thesis
    using h sha3prf_output_length [OF h, of "\<lparr> keyLen = 24, outputLen = 40 \<rparr>" "[1]" 0 0]
    by simp
qed

section \<open>Randomness of the encodings\<close>

text \<open>
  Claim C7 says that a short read from the caller's byte source aborts the operation.
  \<open>RandRandomness\<close> of both encodings does not: with \<open>RandLen = 2\<close> and a reader that
  holds the single byte \<open>0xAA\<close>, each returns the half-filled buffer \<open>AA 00\<close>.
\<close>

theorem rand_randomness_short_read:
  "WinternitzEncoding_RandRandomness bytes_Reader_Read demo_w [0xAA] = Some ([0xAA, 0x00], [])
   \<and> TargetSumEncoding_RandRandomness bytes_Reader_Read demo_t [0xAA] = Some ([0xAA, 0x00], [])"
  by code_simp

section \<open>Verification of malformed signatures\<close>

text \<open>
  Claim C6 says that \<open>Verify\<close> returns a boolean on every input and never aborts. On a
  signature whose \<open>Hashes\<close> vector is empty, with an encoding of dimension 2 whose
  \<open>Encode\<close> succeeds, the index expression \<open>sig.Hashes[0]\<close> panics.
\<close>

theorem verify_short_hashes_panics:
  "Verify demo_xmss \<lparr> pk_Root = [], pk_Parameter = [] \<rparr> 0 []
     \<lparr> sig_Path = \<lparr> CoPath = [] \<rparr>, sig_Rho = [], sig_Hashes = [] \<rparr> = None"
  by code_simp

section \<open>Layers of the sparse hash tree\<close>




lemma int_drop_bit_one: "drop_bit 1 (x::int) = x div 2"
  by (simp add: drop_bit_eq_div)


















section \<open>Merkle paths and the correctness of signatures\<close>
























section \<open>The recommended target sum\<close>













end
